theory Spec2Isabelle
  imports Complex_Main "HOL-Library.AList" "HOL-Library.Sublist"
begin

section \<open>Errors\<close>

text \<open>
  Every exception the modelled code can raise is a value of \<open>error\<close>; a fallible
  operation returns \<open>error + 'a\<close> with \<open>Inl\<close> for the exception.
\<close>

datatype error =
    RelationshipValidationError
  | GraphValidationError
  | GraphOperationError
  | KeyError string
  | NameError string
  | NetworkXException
  | ZeroDivisionError
  | CollaboratorError

section \<open>Entity model\<close>

subsection \<open>Content nodes\<close>

text \<open>
  The extractor and the builder receive nodes as Python dicts. Each key the code reads is
  a field; \<open>None\<close> is an absent key. Floats are modelled by the reals.
\<close>

record node =
  node_id :: "string option"
  content :: "string option"
  vector :: "real list option"
  level :: "int option"
  scope :: "string option"
  ntype :: "string option"
  references :: "string list option"
  quality_score :: "real option"

subsection \<open>Relationship (models/relationship.py)\<close>

text \<open>
  \<open>rel_id\<close> is the uuid of the relationship. Of the metadata dict only the entry
  \<open>similarity_score\<close> is read by the modelled code; it is the field
  \<open>similarity_score\<close>, \<open>None\<close> when the key is absent.
\<close>

record relationship =
  rel_id :: nat
  rtype :: string
  source_id :: string
  target_id :: string
  weight :: real
  similarity_score :: "real option"

definition RELATIONSHIP_TYPES :: "string list" where
  "RELATIONSHIP_TYPES =
     [''IS_PREREQUISITE'', ''IS_RELATED'', ''CONTAINS'', ''REFERENCES'', ''EXTENDS'']"

text \<open>
  \<open>Relationship.__post_init__\<close>: the type must be one of the closed set and the weight
  must lie in [0,1]; nothing else is checked.
\<close>

definition Relationship_post_init :: "relationship \<Rightarrow> error + relationship" where
  "Relationship_post_init r =
     (if rtype r \<notin> set RELATIONSHIP_TYPES then Inl RelationshipValidationError
      else if \<not> (0 \<le> weight r \<and> weight r \<le> 1) then Inl RelationshipValidationError
      else Inr r)"

section \<open>RelationshipExtractor (core/relationship\_extractor.py)\<close>

definition SIMILARITY_THRESHOLD :: real where
  "SIMILARITY_THRESHOLD = 0.7"

definition MAX_RELATIONSHIPS_PER_NODE :: nat where
  "MAX_RELATIONSHIPS_PER_NODE = 20"

definition RELATIONSHIP_WEIGHTS :: "(string \<times> real) list" where
  "RELATIONSHIP_WEIGHTS =
     [(''IS_PREREQUISITE'', 1.0), (''IS_RELATED'', 0.7), (''CONTAINS'', 0.9),
      (''REFERENCES'', 0.6), (''EXTENDS'', 0.8)]"

definition BATCH_SIZE :: int where
  "BATCH_SIZE = 100"

text \<open>Python's \<open>d.get(k, default)\<close> on an association list.\<close>

definition dict_get :: "('k \<times> 'v) list \<Rightarrow> 'k \<Rightarrow> 'v \<Rightarrow> 'v" where
  "dict_get d k dflt = (case map_of d k of None \<Rightarrow> dflt | Some v \<Rightarrow> v)"

definition opt_get :: "'v option \<Rightarrow> 'v \<Rightarrow> 'v" where
  "opt_get v dflt = (case v of None \<Rightarrow> dflt | Some x \<Rightarrow> x)"

subsection \<open>determine\_relationship\_type\<close>

text \<open>
  The rules are tried top-down and the first match wins. \<open>a in b\<close> on Python strings is
  the contiguous-substring test \<open>sublist\<close>; \<open>any(ref in ... for ref in ...)\<close> is
  \<open>list_ex\<close>.
\<close>

definition determine_relationship_type :: "node \<Rightarrow> node \<Rightarrow> real \<Rightarrow> string option" where
  "determine_relationship_type source_node target_node similarity =
     (if opt_get (level source_node) 0 < opt_get (level target_node) 0 \<and> similarity > 0.8
        then Some ''IS_PREREQUISITE''
      else if sublist (opt_get (scope source_node) '''') (opt_get (scope target_node) '''')
              \<and> similarity > 0.85
        then Some ''CONTAINS''
      else if ntype source_node = ntype target_node \<and> similarity > 0.9
        then Some ''EXTENDS''
      else if list_ex (\<lambda>ref. ref \<in> set (opt_get (references target_node) []))
                      (opt_get (references source_node) [])
        then Some ''REFERENCES''
      else if similarity \<ge> SIMILARITY_THRESHOLD
        then Some ''IS_RELATED''
      else None)"

subsection \<open>calculate\_relationship\_weight\<close>

text \<open>
  \<open>quality_factors\<close> is an optional dict; \<open>if quality_factors:\<close> holds for a dict that
  is present and not empty.
\<close>

definition calculate_relationship_weight ::
    "string \<Rightarrow> real \<Rightarrow> (string \<times> real) list option \<Rightarrow> real" where
  "calculate_relationship_weight relationship_type similarity quality_factors =
     (let base_weight = dict_get RELATIONSHIP_WEIGHTS relationship_type 0.5;
          w = base_weight * similarity;
          w' = (case quality_factors of
                  None \<Rightarrow> w
                | Some qf \<Rightarrow>
                    if qf = [] then w
                    else w * ((dict_get qf ''source_quality'' 0.5
                               + dict_get qf ''target_quality'' 0.5) / 2))
      in max 0 (min 1 w'))"

subsection \<open>filter\_relationships\<close>

text \<open>
  The per-node counter dict \<open>node_relationships\<close> is a map; the greedy loop keeps a
  relationship only while both endpoint counters are below the cap. The source writes
  the source counter first and the target counter second.
\<close>

definition count_of :: "(string \<rightharpoonup> nat) \<Rightarrow> string \<Rightarrow> nat" where
  "count_of m k = (case m k of None \<Rightarrow> 0 | Some c \<Rightarrow> c)"

fun enforce_limit :: "(string \<rightharpoonup> nat) \<Rightarrow> relationship list \<Rightarrow> relationship list" where
  "enforce_limit node_relationships [] = []"
| "enforce_limit node_relationships (rel # rest) =
     (let source_count = count_of node_relationships (source_id rel);
          target_count = count_of node_relationships (target_id rel)
      in if source_count < MAX_RELATIONSHIPS_PER_NODE
            \<and> target_count < MAX_RELATIONSHIPS_PER_NODE
         then rel # enforce_limit
                (node_relationships(source_id rel \<mapsto> source_count + 1,
                                    target_id rel \<mapsto> target_count + 1)) rest
         else enforce_limit node_relationships rest)"

text \<open>
  \<open>sorted(..., key=weight, reverse=True)\<close> is a stable sort by descending weight:
  \<open>sort_key\<close> on the negated weight.
\<close>

definition filter_relationships :: "relationship list \<Rightarrow> relationship list" where
  "filter_relationships relationships =
     (if relationships = [] then []
      else
        let sorted_relationships = sort_key (\<lambda>r. - weight r) relationships;
            filtered = filter (\<lambda>r. opt_get (similarity_score r) 0 \<ge> SIMILARITY_THRESHOLD)
                         sorted_relationships
        in enforce_limit Map.empty filtered)"

text \<open>The relationships of a list that have node \<open>n\<close> as source or target.\<close>

definition incident :: "string \<Rightarrow> relationship list \<Rightarrow> relationship list" where
  "incident n rs = filter (\<lambda>r. source_id r = n \<or> target_id r = n) rs"

subsection \<open>extract\_relationships\<close>

text \<open>
  The state the extractor reads and writes: the relationship cache, keyed by the pair of
  node ids, and the supply of fresh uuids for new relationships. The cache holds the
  entries whose age is below \<open>CACHE_TTL\<close>; the clock itself is not modelled. The
  similarity collaborator is the parameter \<open>sim\<close>, which may fail.
\<close>

type_synonym relationship_cache = "((string \<times> string) \<times> relationship) list"

record extractor_state =
  relationship_cache :: relationship_cache
  uuid_counter :: nat

type_synonym similarity_calculator = "real list \<Rightarrow> real list \<Rightarrow> error + real"

text \<open>\<open>[nodes[i:i + n] for i in range(0, len(nodes), n)]\<close> for a positive step.\<close>

function make_batches :: "nat \<Rightarrow> 'a list \<Rightarrow> 'a list list" where
  "make_batches n xs =
     (if n = 0 \<or> xs = [] then [] else take n xs # make_batches n (drop n xs))"
  by pat_completeness auto
termination
  by (relation "measure (\<lambda>(n, xs). length xs)") auto

text \<open>
  The same slicing for Python's signed step: \<open>range\<close> with a negative step from 0 up
  to a positive length is empty. A zero step does not reach this function: the callers
  pass the minimum of a non-zero number and a positive length.
\<close>

definition slices :: "int \<Rightarrow> 'a list \<Rightarrow> 'a list list" where
  "slices step xs = (if step \<le> 0 then [] else make_batches (nat step) xs)"

text \<open>\<open>[(source, target) for i, source in enumerate(batch) for target in batch[i+1:]]\<close>\<close>

fun node_pairs :: "'a list \<Rightarrow> ('a \<times> 'a) list" where
  "node_pairs [] = []"
| "node_pairs (x # xs) = map (Pair x) xs @ node_pairs xs"

text \<open>
  First loop over the pairs of a batch: a pair found in the cache contributes the cached
  relationship at once; otherwise a similarity task is created for it. \<open>source['id']\<close>
  and \<open>source['vector']\<close> raise \<open>KeyError\<close> on a missing key.
\<close>

type_synonym similarity_task = "node \<times> node \<times> string \<times> string \<times> real list \<times> real list"

fun collect_tasks ::
    "relationship_cache \<Rightarrow> (node \<times> node) list
       \<Rightarrow> error + (relationship list \<times> similarity_task list)" where
  "collect_tasks cache [] = Inr ([], [])"
| "collect_tasks cache ((source, target) # rest) =
     (case node_id source of
        None \<Rightarrow> Inl (KeyError ''id'')
      | Some sid \<Rightarrow>
         (case node_id target of
            None \<Rightarrow> Inl (KeyError ''id'')
          | Some tid \<Rightarrow>
             (case map_of cache (sid, tid) of
                Some cached \<Rightarrow>
                  (case collect_tasks cache rest of
                     Inl e \<Rightarrow> Inl e
                   | Inr (found, tasks) \<Rightarrow> Inr (cached # found, tasks))
              | None \<Rightarrow>
                  (case vector source of
                     None \<Rightarrow> Inl (KeyError ''vector'')
                   | Some vs \<Rightarrow>
                      (case vector target of
                         None \<Rightarrow> Inl (KeyError ''vector'')
                       | Some vt \<Rightarrow>
                          (case collect_tasks cache rest of
                             Inl e \<Rightarrow> Inl e
                           | Inr (found, tasks) \<Rightarrow>
                               Inr (found, (source, target, sid, tid, vs, vt) # tasks)))))))"

text \<open>
  Second loop: each task's similarity is awaited in order; a pair at or above the
  threshold is typed, weighted, constructed as a \<open>Relationship\<close> (which validates it),
  cached and appended.
\<close>

fun process_tasks ::
    "similarity_calculator \<Rightarrow> extractor_state \<Rightarrow> similarity_task list
       \<Rightarrow> error + (relationship list \<times> extractor_state)" where
  "process_tasks sim st [] = Inr ([], st)"
| "process_tasks sim st ((source, target, sid, tid, vs, vt) # rest) =
     (case sim vs vt of
        Inl e \<Rightarrow> Inl e
      | Inr similarity \<Rightarrow>
         (if similarity \<ge> SIMILARITY_THRESHOLD then
            (case determine_relationship_type source target similarity of
               None \<Rightarrow> process_tasks sim st rest
             | Some relationship_type \<Rightarrow>
                 (let w = calculate_relationship_weight relationship_type similarity
                            (Some [(''source_quality'', opt_get (quality_score source) 0.5),
                                   (''target_quality'', opt_get (quality_score target) 0.5)])
                  in (case Relationship_post_init
                            \<lparr>rel_id = uuid_counter st, rtype = relationship_type,
                             source_id = sid, target_id = tid, weight = w,
                             similarity_score = Some similarity\<rparr> of
                       Inl e \<Rightarrow> Inl e
                     | Inr rel \<Rightarrow>
                         (case process_tasks sim
                                 \<lparr>relationship_cache =
                                    AList.update (sid, tid) rel (relationship_cache st),
                                  uuid_counter = Suc (uuid_counter st)\<rparr> rest of
                            Inl e \<Rightarrow> Inl e
                          | Inr (rels, st') \<Rightarrow> Inr (rel # rels, st')))))
          else process_tasks sim st rest))"

fun process_batches ::
    "similarity_calculator \<Rightarrow> extractor_state \<Rightarrow> node list list
       \<Rightarrow> error + (relationship list \<times> extractor_state)" where
  "process_batches sim st [] = Inr ([], st)"
| "process_batches sim st (batch # rest) =
     (case collect_tasks (relationship_cache st) (node_pairs batch) of
        Inl e \<Rightarrow> Inl e
      | Inr (found, tasks) \<Rightarrow>
          (case process_tasks sim st tasks of
             Inl e \<Rightarrow> Inl e
           | Inr (created, st') \<Rightarrow>
               (case process_batches sim st' rest of
                  Inl e \<Rightarrow> Inl e
                | Inr (rels, st'') \<Rightarrow> Inr (found @ created @ rels, st''))))"

text \<open>
  \<open>batch_size or BATCH_SIZE\<close> replaces \<open>None\<close> and 0 by the default; the result is the
  filtered relationship list and the new extractor state.
\<close>

definition extract_relationships ::
    "similarity_calculator \<Rightarrow> extractor_state \<Rightarrow> node list \<Rightarrow> int option
       \<Rightarrow> error + (relationship list \<times> extractor_state)" where
  "extract_relationships sim st nodes batch_size =
     (if nodes = [] then Inr ([], st)
      else
        let requested = (case batch_size of None \<Rightarrow> BATCH_SIZE
                         | Some b \<Rightarrow> if b = 0 then BATCH_SIZE else b);
            size = min requested (int (length nodes))
        in (case process_batches sim st (slices size nodes) of
              Inl e \<Rightarrow> Inl e
            | Inr (rels, st') \<Rightarrow> Inr (filter_relationships rels, st')))"

text \<open>What a caller observes of an extraction: type, direction and weight of each edge.\<close>

definition edge_view :: "relationship \<Rightarrow> string \<times> string \<times> string \<times> real" where
  "edge_view r = (rtype r, source_id r, target_id r, weight r)"

definition extracted_edges ::
    "error + (relationship list \<times> extractor_state)
       \<Rightarrow> error + (string \<times> string \<times> string \<times> real) list" where
  "extracted_edges res = (case res of Inl e \<Rightarrow> Inl e | Inr (rels, st) \<Rightarrow> Inr (map edge_view rels))"

section \<open>Directed graphs as the code builds them (networkx \<open>DiGraph\<close>)\<close>

text \<open>
  Every analysis in the builder and the optimizer starts from an empty \<open>nx.DiGraph\<close> and
  calls \<open>add_edge(source_id, target_id, ...)\<close> once per relationship. A \<open>DiGraph\<close>
  keeps its nodes in insertion order and one attribute dict per ordered pair: adding
  an edge that exists overwrites its attributes in place. Only the endpoints of
  relationships ever become nodes. The attributes are the weight and the relationship
  id; the id is read by \<open>remove_redundant_relationships\<close> only.
\<close>

record digraph =
  dg_nodes :: "string list"
  dg_edges :: "((string \<times> string) \<times> (real \<times> nat)) list"

definition empty_digraph :: digraph where
  "empty_digraph = \<lparr>dg_nodes = [], dg_edges = []\<rparr>"

definition add_node :: "string \<Rightarrow> string list \<Rightarrow> string list" where
  "add_node n ns = (if n \<in> set ns then ns else ns @ [n])"

definition add_edge :: "relationship \<Rightarrow> digraph \<Rightarrow> digraph" where
  "add_edge rel G =
     \<lparr>dg_nodes = add_node (target_id rel) (add_node (source_id rel) (dg_nodes G)),
      dg_edges = AList.update (source_id rel, target_id rel) (weight rel, rel_id rel)
                   (dg_edges G)\<rparr>"

definition to_digraph :: "relationship list \<Rightarrow> digraph" where
  "to_digraph rels = fold add_edge rels empty_digraph"

definition successors :: "digraph \<Rightarrow> string \<Rightarrow> string list" where
  "successors G u = map (snd \<circ> fst) (filter (\<lambda>e. fst (fst e) = u) (dg_edges G))"

definition predecessors :: "digraph \<Rightarrow> string \<Rightarrow> string list" where
  "predecessors G v = map (fst \<circ> fst) (filter (\<lambda>e. snd (fst e) = v) (dg_edges G))"

definition has_edge :: "digraph \<Rightarrow> string \<Rightarrow> string \<Rightarrow> bool" where
  "has_edge G u v = (map_of (dg_edges G) (u, v) \<noteq> None)"

text \<open>\<open>G.edges()\<close>: for every node in insertion order, its out-edges in insertion order.\<close>

definition edges_of :: "digraph \<Rightarrow> (string \<times> string) list" where
  "edges_of G = concat (map (\<lambda>u. map (Pair u) (successors G u)) (dg_nodes G))"

text \<open>\<open>G.degree(node)\<close> of a \<open>DiGraph\<close>: in-degree plus out-degree.\<close>

definition degree :: "digraph \<Rightarrow> string \<Rightarrow> nat" where
  "degree G n = length (predecessors G n) + length (successors G n)"



section \<open>Graph (models/graph.py)\<close>

text \<open>The metrics dict of \<open>GraphOptimizer.calculate_metrics\<close>.\<close>

record metrics =
  node_count :: nat
  edge_count :: nat
  density :: real
  average_clustering :: real
  average_shortest_path :: real
  diameter :: real
  average_degree :: real
  strongly_connected_components :: nat

text \<open>
  Of the metadata dict of a graph the entry \<open>optimization_metrics\<close> is modelled: the
  pair of the \<open>initial\<close> and the \<open>final\<close> metrics, absent before the first optimization.
\<close>

record graph =
  graph_id :: nat
  graph_name :: string
  gtype :: string
  nodes :: "node list"
  relationships :: "relationship list"
  optimization_metrics :: "(metrics \<times> metrics) option"

definition GRAPH_TYPES :: "string list" where
  "GRAPH_TYPES = [''KNOWLEDGE_GRAPH'', ''TOPIC_GRAPH'', ''PREREQUISITE_GRAPH'', ''SEMANTIC_GRAPH'']"

text \<open>
  \<open>Graph.__post_init__\<close>: the only validation is that the type is one of
  \<open>GRAPH_TYPES\<close>; the nodes and the relationships are taken as given.
\<close>

definition Graph_post_init :: "graph \<Rightarrow> error + graph" where
  "Graph_post_init g = (if gtype g \<notin> set GRAPH_TYPES then Inl GraphValidationError else Inr g)"

section \<open>GraphBuilder (core/graph\_builder.py)\<close>




section \<open>GraphOptimizer (core/graph\_optimizer.py)\<close>

definition MIN_RELATIONSHIP_WEIGHT :: real where
  "MIN_RELATIONSHIP_WEIGHT = 0.1"

definition MAX_RELATIONSHIP_WEIGHT :: real where
  "MAX_RELATIONSHIP_WEIGHT = 1.0"

definition OPTIMIZATION_BATCH_SIZE :: int where
  "OPTIMIZATION_BATCH_SIZE = 100"

subsection \<open>State and collaborators\<close>

text \<open>
  The optimizer works on the persisted graph and on its own metrics cache (keyed by
  graph id). The persistence collaborator is modelled by the store it manages: the ids
  of the persisted nodes and the persisted relationships.
\<close>

record optimizer_state =
  db_nodes :: "string list"
  db_relationships :: "relationship list"
  metrics_cache :: "(nat \<times> metrics) list"

text \<open>
  The networkx algorithms whose results the optimizer only passes on or compares with a
  threshold are parameters: PageRank, the clustering coefficients and the structural
  metrics; each may raise where networkx does.
\<close>

record nx_library =
  nx_pagerank :: "digraph \<Rightarrow> error + (string \<times> real) list"
  nx_clustering :: "digraph \<Rightarrow> (string \<times> real) list"
  nx_average_clustering :: "digraph \<Rightarrow> error + real"
  nx_average_shortest_path_length :: "digraph \<Rightarrow> error + real"
  nx_diameter :: "digraph \<Rightarrow> error + real"
  nx_number_strongly_connected_components :: "digraph \<Rightarrow> nat"

text \<open>
  What else an optimizer run depends on: the \<open>optimization_config\<close> dict, the outcome of
  \<open>graph.analyze()\<close> (a method that \<open>models/graph.py\<close> does not define; its result is not
  used by the caller), and whether the cleanup task scheduled by the first
  \<open>calculate_metrics\<close> call (it sleeps \<open>METRICS_CACHE_TTL\<close> seconds, then evicts the
  entry) has run by the time the final metrics are asked for.
\<close>

record optimizer_env =
  nx :: nx_library
  optimization_config :: "(string \<times> real) list"
  graph_analyze :: "graph \<Rightarrow> error + unit"
  cleanup_ran_during_passes :: bool

text \<open>
  Modelled from the spec: \<open>Graph.get_relationships\<close> is called by the optimizer but is not
  defined in \<open>models/graph.py\<close>. The spec has the optimizer read and write the persisted
  graph, and the persistence service read the relationships of a node set: the call
  returns the relationships currently in the store.
\<close>

definition get_relationships :: "optimizer_state \<Rightarrow> graph \<Rightarrow> relationship list" where
  "get_relationships st g = db_relationships st"

subsection \<open>remove\_redundant\_relationships\<close>

text \<open>
  \<open>nx.all_simple_paths\<close> (networkx 3.1): \<open>NodeNotFound\<close> for a source outside the graph,
  no path when source and target coincide, and otherwise a depth-first enumeration of
  the simple paths to the target with the cutoff \<open>len(G) - 1\<close>. \<open>paths_from G target k
  visited\<close> extends the path \<open>visited\<close> by at most \<open>k\<close> further edges.
\<close>

fun paths_from :: "digraph \<Rightarrow> string \<Rightarrow> nat \<Rightarrow> string list \<Rightarrow> string list list" where
  "paths_from G target 0 visited = []"
| "paths_from G target (Suc k) visited =
     concat (map (\<lambda>child. if child \<in> set visited then []
                           else if child = target then [visited @ [child]]
                           else paths_from G target k (visited @ [child]))
                 (successors G (last visited)))"

definition all_simple_paths :: "digraph \<Rightarrow> string \<Rightarrow> string \<Rightarrow> error + string list list" where
  "all_simple_paths G source target =
     (if source \<notin> set (dg_nodes G) then Inl NetworkXException
      else if source = target then Inr []
      else Inr (paths_from G target (length (dg_nodes G) - 1) [source]))"

text \<open>\<open>np.prod([G[path[i]][path[i+1]]['weight'] for i in range(len(path)-1)])\<close>\<close>

fun path_strength :: "digraph \<Rightarrow> string list \<Rightarrow> error + real" where
  "path_strength G (u # v # rest) =
     (case map_of (dg_edges G) (u, v) of
        None \<Rightarrow> Inl (KeyError v)
      | Some (w, i) \<Rightarrow>
         (case path_strength G (v # rest) of
            Inl e \<Rightarrow> Inl e
          | Inr p \<Rightarrow> Inr (w * p)))"
| "path_strength G path = Inr 1"

text \<open>A loop that evaluates fallible steps in order and stops at the first exception.\<close>

fun collect :: "(error + 'a) list \<Rightarrow> error + 'a list" where
  "collect [] = Inr []"
| "collect (x # xs) =
     (case x of
        Inl e \<Rightarrow> Inl e
      | Inr v \<Rightarrow> (case collect xs of Inl e \<Rightarrow> Inl e | Inr vs \<Rightarrow> Inr (v # vs)))"

fun list_max :: "real list \<Rightarrow> real" where
  "list_max [] = 0"
| "list_max (x # xs) = fold max xs x"

text \<open>
  The body of the loop over \<open>G.edges()\<close>: the id of the direct edge when it is marked
  redundant. \<open>list_max\<close> is applied to a list of at least two strengths.
\<close>

definition edge_redundant :: "digraph \<Rightarrow> string \<times> string \<Rightarrow> error + nat option" where
  "edge_redundant G e =
     (case all_simple_paths G (fst e) (snd e) of
        Inl err \<Rightarrow> Inl err
      | Inr paths \<Rightarrow>
         (if length paths > 1 then
            (case collect (map (path_strength G) paths) of
               Inl err \<Rightarrow> Inl err
             | Inr path_strengths \<Rightarrow>
                (case map_of (dg_edges G) e of
                   None \<Rightarrow> Inl (KeyError (snd e))
                 | Some (w, i) \<Rightarrow>
                     Inr (if list_max path_strengths > w then Some i else None)))
          else Inr None))"

definition redundant_edges :: "digraph \<Rightarrow> error + nat list" where
  "redundant_edges G =
     (case collect (map (edge_redundant G) (edges_of G)) of
        Inl err \<Rightarrow> Inl err
      | Inr marks \<Rightarrow> Inr (concat (map (\<lambda>m. case m of None \<Rightarrow> [] | Some i \<Rightarrow> [i]) marks)))"

text \<open>
  \<open>MATCH ()-[r:RELATIONSHIP]->() WHERE r.id IN $redundant_ids DELETE r\<close> on the store.
\<close>

definition delete_relationships :: "nat list \<Rightarrow> optimizer_state \<Rightarrow> optimizer_state" where
  "delete_relationships ids st =
     st\<lparr>db_relationships := filter (\<lambda>r. rel_id r \<notin> set ids) (db_relationships st)\<rparr>"

definition remove_redundant_relationships ::
    "optimizer_state \<Rightarrow> relationship list \<Rightarrow> error + optimizer_state" where
  "remove_redundant_relationships st batch =
     (case redundant_edges (to_digraph batch) of
        Inl err \<Rightarrow> Inl err
      | Inr ids \<Rightarrow> Inr (if ids \<noteq> [] then delete_relationships ids st else st))"

subsection \<open>optimize\_weights\<close>

text \<open>\<open>np.clip(x, lo, hi)\<close> is \<open>minimum(maximum(x, lo), hi)\<close>.\<close>

definition np_clip :: "real \<Rightarrow> real \<Rightarrow> real \<Rightarrow> real" where
  "np_clip x lo hi = min (max x lo) hi"

text \<open>
  \<open>UNWIND $updates AS update MATCH ()-[r:RELATIONSHIP {id: update.id}]->()
  SET r.weight = update.weight\<close>: the updates are applied in order to the persisted
  relationships with a matching id.
\<close>

definition set_weight :: "nat \<times> real \<Rightarrow> relationship list \<Rightarrow> relationship list" where
  "set_weight upd rels = map (\<lambda>r. if rel_id r = fst upd then r\<lparr>weight := snd upd\<rparr> else r) rels"

definition optimize_weights ::
    "nx_library \<Rightarrow> optimizer_state \<Rightarrow> relationship list \<Rightarrow> error + optimizer_state" where
  "optimize_weights lib st batch =
     (case nx_pagerank lib (to_digraph batch) of
        Inl err \<Rightarrow> Inl err
      | Inr pagerank_scores \<Rightarrow>
          (let weight_updates =
                 map (\<lambda>rel. (rel_id rel,
                        np_clip ((dict_get pagerank_scores (source_id rel) 0
                                  + dict_get pagerank_scores (target_id rel) 0) / 2 * weight rel)
                          MIN_RELATIONSHIP_WEIGHT MAX_RELATIONSHIP_WEIGHT)) batch
           in Inr (if weight_updates \<noteq> []
                   then st\<lparr>db_relationships := fold set_weight weight_updates (db_relationships st)\<rparr>
                   else st)))"

subsection \<open>rebalance\_structure\<close>

text \<open>
  The names bound at module level in \<open>graph_optimizer.py\<close>: its imports, its constants,
  its metrics objects and its class. A name that a function body reads and that is bound
  neither locally nor here (nor is a builtin) raises \<open>NameError\<close> when it is evaluated.
\<close>

definition graph_optimizer_globals :: "string list" where
  "graph_optimizer_globals =
     [''nx'', ''np'', ''logging'', ''asyncio'', ''Counter'', ''Gauge'', ''CircuitBreaker'',
      ''Graph'', ''Neo4jConnection'', ''logger'', ''MIN_RELATIONSHIP_WEIGHT'',
      ''MAX_RELATIONSHIP_WEIGHT'', ''OPTIMIZATION_BATCH_SIZE'', ''CIRCUIT_BREAKER_THRESHOLD'',
      ''CIRCUIT_BREAKER_TIMEOUT'', ''METRICS_CACHE_TTL'', ''OPTIMIZATION_TIMEOUT'',
      ''OPTIMIZATION_COUNTER'', ''OPTIMIZATION_DURATION'', ''GRAPH_METRICS'',
      ''GraphOptimizer'']"

definition resolve_global :: "string \<Rightarrow> error + unit" where
  "resolve_global name =
     (if name \<in> set graph_optimizer_globals then Inr () else Inl (NameError name))"

text \<open>
  The \<open>CREATE\<close> query of the rebalancing branch: it matches the two persisted nodes and
  creates an \<open>IS_RELATED\<close> relationship between them under the given id.
\<close>

definition create_relationship ::
    "nat \<Rightarrow> string \<Rightarrow> string \<Rightarrow> real \<Rightarrow> optimizer_state \<Rightarrow> optimizer_state" where
  "create_relationship new_id source target w st =
     (if source \<in> set (db_nodes st) \<and> target \<in> set (db_nodes st)
      then st\<lparr>db_relationships := db_relationships st @
                 [\<lparr>rel_id = new_id, rtype = ''IS_RELATED'', source_id = source,
                   target_id = target, weight = w, similarity_score = None\<rparr>]\<rparr>
      else st)"

text \<open>A uuid that no persisted relationship carries.\<close>

definition fresh_uuid :: "optimizer_state \<Rightarrow> nat" where
  "fresh_uuid st = Suc (fold max (map rel_id (db_relationships st)) 0)"

text \<open>
  The triples (predecessor, node, successor) in the order of the three nested loops.
\<close>

definition rebalance_candidates :: "digraph \<Rightarrow> string list \<Rightarrow> (string \<times> string \<times> string) list" where
  "rebalance_candidates G rebalance_nodes =
     concat (map (\<lambda>n. concat (map (\<lambda>p. map (\<lambda>s. (p, n, s)) (successors G n))
                                   (predecessors G n)))
                 rebalance_nodes)"

text \<open>
  The weight of the edge that the loop body would add for a triple, when it would add
  one: the pair has no direct edge and the smaller of the two weights exceeds
  \<open>MIN_RELATIONSHIP_WEIGHT\<close>.
\<close>

definition candidate_weight :: "digraph \<Rightarrow> string \<times> string \<times> string \<Rightarrow> error + real option" where
  "candidate_weight G c =
     (case c of (p, n, s) \<Rightarrow>
        if has_edge G p s then Inr None
        else
          (case map_of (dg_edges G) (p, n) of
             None \<Rightarrow> Inl (KeyError n)
           | Some (w1, i1) \<Rightarrow>
              (case map_of (dg_edges G) (n, s) of
                 None \<Rightarrow> Inl (KeyError s)
               | Some (w2, i2) \<Rightarrow>
                   Inr (if min w1 w2 > MIN_RELATIONSHIP_WEIGHT then Some (min w1 w2) else None))))"

text \<open>
  The loop body in the source's evaluation order: the parameter dict of the query,
  with \<open>str(uuid.uuid4())\<close> in it, is evaluated before the query is sent.
\<close>

fun add_direct_connections ::
    "digraph \<Rightarrow> optimizer_state \<Rightarrow> (string \<times> string \<times> string) list \<Rightarrow> error + optimizer_state" where
  "add_direct_connections G st [] = Inr st"
| "add_direct_connections G st (c # rest) =
     (case candidate_weight G c of
        Inl err \<Rightarrow> Inl err
      | Inr None \<Rightarrow> add_direct_connections G st rest
      | Inr (Some w) \<Rightarrow>
         (case resolve_global ''uuid'' of
            Inl err \<Rightarrow> Inl err
          | Inr u \<Rightarrow>
              add_direct_connections G
                (create_relationship (fresh_uuid st) (fst c) (snd (snd c)) w st) rest))"

definition rebalance_nodes_of :: "optimizer_env \<Rightarrow> digraph \<Rightarrow> string list" where
  "rebalance_nodes_of env G =
     map fst (filter (\<lambda>nc. snd nc < dict_get (optimization_config env) ''min_clustering'' 0.3)
                (nx_clustering (nx env) G))"

definition rebalance_structure ::
    "optimizer_env \<Rightarrow> optimizer_state \<Rightarrow> graph \<Rightarrow> error + optimizer_state" where
  "rebalance_structure env st g =
     (case graph_analyze env g of
        Inl err \<Rightarrow> Inl err
      | Inr u \<Rightarrow>
          (let G = to_digraph (get_relationships st g)
           in add_direct_connections G st (rebalance_candidates G (rebalance_nodes_of env G))))"

subsection \<open>calculate\_metrics\<close>

text \<open>\<open>nx.density\<close> of a directed graph with \<open>n\<close> nodes and \<open>m\<close> edges.\<close>

definition nx_density :: "digraph \<Rightarrow> real" where
  "nx_density G =
     (let n = length (dg_nodes G); m = length (dg_edges G)
      in if m = 0 \<or> n \<le> 1 then 0 else real m / (real n * (real n - 1)))"

text \<open>
  The metrics of the graph that \<open>get_relationships\<close> returns, computed in the order of the
  dict display; the first networkx call that raises ends the computation.
\<close>

definition compute_metrics :: "nx_library \<Rightarrow> digraph \<Rightarrow> error + metrics" where
  "compute_metrics lib G =
     (case nx_average_clustering lib G of
        Inl err \<Rightarrow> Inl err
      | Inr ac \<Rightarrow>
         (case nx_average_shortest_path_length lib G of
            Inl err \<Rightarrow> Inl err
          | Inr asp \<Rightarrow>
             (case nx_diameter lib G of
                Inl err \<Rightarrow> Inl err
              | Inr dia \<Rightarrow>
                 (if dg_nodes G = [] then Inl ZeroDivisionError
                  else Inr \<lparr>node_count = length (dg_nodes G),
                            edge_count = length (dg_edges G),
                            density = nx_density G,
                            average_clustering = ac,
                            average_shortest_path = asp,
                            diameter = dia,
                            average_degree = real (sum_list (map (degree G) (dg_nodes G)))
                                               / real (length (dg_nodes G)),
                            strongly_connected_components =
                              nx_number_strongly_connected_components lib G\<rparr>))))"

text \<open>
  \<open>calculate_metrics\<close> answers from the metrics cache when the graph id has an entry and
  otherwise computes the metrics and stores them under the graph id.
\<close>

definition calculate_metrics ::
    "optimizer_env \<Rightarrow> optimizer_state \<Rightarrow> graph \<Rightarrow> error + (metrics \<times> optimizer_state)" where
  "calculate_metrics env st g =
     (case map_of (metrics_cache st) (graph_id g) of
        Some cached \<Rightarrow> Inr (cached, st)
      | None \<Rightarrow>
         (case compute_metrics (nx env) (to_digraph (get_relationships st g)) of
            Inl err \<Rightarrow> Inl err
          | Inr m \<Rightarrow>
              Inr (m, st\<lparr>metrics_cache := AList.update (graph_id g) m (metrics_cache st)\<rparr>)))"

subsection \<open>optimize\<close>

text \<open>The loop over the batches: redundancy removal, then re-weighting, per batch.\<close>

fun optimize_batches ::
    "nx_library \<Rightarrow> optimizer_state \<Rightarrow> relationship list list \<Rightarrow> error + optimizer_state" where
  "optimize_batches lib st [] = Inr st"
| "optimize_batches lib st (batch # rest) =
     (case remove_redundant_relationships st batch of
        Inl err \<Rightarrow> Inl err
      | Inr st1 \<Rightarrow>
         (case optimize_weights lib st1 batch of
            Inl err \<Rightarrow> Inl err
          | Inr st2 \<Rightarrow> optimize_batches lib st2 rest))"

text \<open>The state in which \<open>optimize\<close> calls \<open>rebalance_structure\<close>.\<close>

definition optimize_passes ::
    "optimizer_env \<Rightarrow> optimizer_state \<Rightarrow> graph \<Rightarrow> error + (metrics \<times> optimizer_state)" where
  "optimize_passes env st g =
     (case calculate_metrics env st g of
        Inl err \<Rightarrow> Inl err
      | Inr (initial_metrics, st1) \<Rightarrow>
         (case optimize_batches (nx env) st1
                 (slices OPTIMIZATION_BATCH_SIZE (get_relationships st1 g)) of
            Inl err \<Rightarrow> Inl err
          | Inr st2 \<Rightarrow> Inr (initial_metrics, st2)))"

definition evict :: "bool \<Rightarrow> graph \<Rightarrow> optimizer_state \<Rightarrow> optimizer_state" where
  "evict cleanup g st =
     (if cleanup then st\<lparr>metrics_cache := AList.delete (graph_id g) (metrics_cache st)\<rparr> else st)"

definition optimize ::
    "optimizer_env \<Rightarrow> optimizer_state \<Rightarrow> graph \<Rightarrow> error + (graph \<times> optimizer_state)" where
  "optimize env st g =
     (case optimize_passes env st g of
        Inl err \<Rightarrow> Inl err
      | Inr (initial_metrics, st2) \<Rightarrow>
         (case rebalance_structure env st2 g of
            Inl err \<Rightarrow> Inl err
          | Inr st3 \<Rightarrow>
             (case calculate_metrics env (evict (cleanup_ran_during_passes env) g st3) g of
                Inl err \<Rightarrow> Inl err
              | Inr (final_metrics, st4) \<Rightarrow>
                  Inr (g\<lparr>optimization_metrics := Some (initial_metrics, final_metrics)\<rparr>, st4))))"

text \<open>The ordered pair of endpoints under which a \<open>DiGraph\<close> files a relationship.\<close>

definition edge_key :: "relationship \<Rightarrow> string \<times> string" where
  "edge_key r = (source_id r, target_id r)"

section \<open>GraphSchema (schemas/graph.py)\<close>

text \<open>
  The request schema of the service validates a graph a second time; for a graph of
  type PREREQUISITE\_GRAPH it rejects a relationship list on which \<open>_has_cycle\<close> answers
  \<open>True\<close>. \<open>_has_cycle\<close> builds the adjacency dict with \<open>setdefault(source, []).append\<close>
  and runs a depth-first search that keeps the set of visited vertices and the set of
  vertices on the current path. The search state is the pair (visited, path); the
  recursion depth of \<open>dfs\<close> is bounded by the number of vertices, which is the fuel the
  model passes (\<open>None\<close> is a search cut off by the fuel).
\<close>

definition adjacency :: "(string \<times> string) list \<Rightarrow> (string \<times> string list) list" where
  "adjacency edges = fold (\<lambda>e g. AList.update (fst e) (dict_get g (fst e) [] @ [snd e]) g) edges []"

fun dfs :: "(string \<times> string list) list \<Rightarrow> nat \<Rightarrow> string \<Rightarrow> string list \<times> string list
              \<Rightarrow> (bool \<times> string list \<times> string list) option"
and dfs_neighbors :: "(string \<times> string list) list \<Rightarrow> nat \<Rightarrow> string list \<Rightarrow> string list \<times> string list
              \<Rightarrow> (bool \<times> string list \<times> string list) option" where
  "dfs adj 0 vertex st = None"
| "dfs adj (Suc k) vertex st =
     (case dfs_neighbors adj k (dict_get adj vertex []) (vertex # fst st, vertex # snd st) of
        None \<Rightarrow> None
      | Some (found, visited, path) \<Rightarrow>
          if found then Some (True, visited, path)
          else Some (False, visited, removeAll vertex path))"
| "dfs_neighbors adj k [] st = Some (False, st)"
| "dfs_neighbors adj k (neighbor # rest) st =
     (if neighbor \<notin> set (fst st) then
        (case dfs adj k neighbor st of
           None \<Rightarrow> None
         | Some (found, st') \<Rightarrow>
             if found then Some (True, st') else dfs_neighbors adj k rest st')
      else if neighbor \<in> set (snd st) then Some (True, st)
      else dfs_neighbors adj k rest st)"

fun has_cycle_loop :: "(string \<times> string list) list \<Rightarrow> nat \<Rightarrow> string list \<Rightarrow> string list \<times> string list
              \<Rightarrow> bool option" where
  "has_cycle_loop adj k [] st = Some False"
| "has_cycle_loop adj k (vertex # rest) st =
     (if vertex \<notin> set (fst st) then
        (case dfs adj k vertex st of
           None \<Rightarrow> None
         | Some (found, st') \<Rightarrow> if found then Some True else has_cycle_loop adj k rest st')
      else has_cycle_loop adj k rest st)"

definition has_cycle :: "(string \<times> string) list \<Rightarrow> bool option" where
  "has_cycle edges =
     (let adj = adjacency edges
      in has_cycle_loop adj (Suc (length (remdups (map fst edges @ map snd edges)))) (map fst adj) ([], []))"


section \<open>Demonstration inputs\<close>

definition plain_node :: "string \<Rightarrow> real \<Rightarrow> node" where
  "plain_node i q =
     \<lparr>node_id = Some i, content = Some ''text'', vector = Some [1, 0], level = None,
      scope = None, ntype = None, references = None, quality_score = Some q\<rparr>"

definition levelled_node :: "string \<Rightarrow> int \<Rightarrow> node" where
  "levelled_node i l =
     \<lparr>node_id = Some i, content = Some ''text'', vector = Some [1, 0], level = Some l,
      scope = None, ntype = None, references = None, quality_score = None\<rparr>"

definition fresh_extractor :: extractor_state where
  "fresh_extractor = \<lparr>relationship_cache = [], uuid_counter = 0\<rparr>"

definition edge :: "nat \<Rightarrow> string \<Rightarrow> string \<Rightarrow> real \<Rightarrow> relationship" where
  "edge i s t w = \<lparr>rel_id = i, rtype = ''IS_RELATED'', source_id = s, target_id = t, weight = w, similarity_score = Some 0.9\<rparr>"

definition triangle_batch :: "relationship list" where
  "triangle_batch = [edge 1 ''A'' ''C'' 0.3, edge 2 ''A'' ''B'' 0.75, edge 3 ''B'' ''C'' 0.8]"

definition triangle_store :: optimizer_state where
  "triangle_store = \<lparr>db_nodes = [''A'', ''B'', ''C''], db_relationships = triangle_batch, metrics_cache = []\<rparr>"




text \<open>
  Stores over the nodes A, B, C: the directed cycle A\<rightarrow>B\<rightarrow>C\<rightarrow>A, and the same cycle with
  the weak chord A\<rightarrow>C. \<open>demo_nx\<close> fixes results for the networkx functions that the
  optimizer takes as parameters; the general statements below hold for every library.
\<close>

definition cycle_batch :: "relationship list" where
  "cycle_batch = [edge 1 ''A'' ''B'' 0.9, edge 2 ''B'' ''C'' 0.9, edge 3 ''C'' ''A'' 0.9]"

definition chord_batch :: "relationship list" where
  "chord_batch = [edge 1 ''A'' ''C'' 0.3, edge 2 ''A'' ''B'' 0.75, edge 3 ''B'' ''C'' 0.8,
                  edge 4 ''C'' ''A'' 0.9]"

definition store_of :: "relationship list \<Rightarrow> optimizer_state" where
  "store_of rels = \<lparr>db_nodes = [''A'', ''B'', ''C''], db_relationships = rels, metrics_cache = []\<rparr>"

definition demo_nx :: nx_library where
  "demo_nx =
     \<lparr>nx_pagerank = (\<lambda>G. Inr (map (\<lambda>n. (n, 1 / 3)) (dg_nodes G))),
      nx_clustering = (\<lambda>G. map (\<lambda>n. (n, 1 / 4)) (dg_nodes G)),
      nx_average_clustering = (\<lambda>G. Inr (if length (dg_edges G) = 4 then 1 / 3 else 1 / 4)),
      nx_average_shortest_path_length =
        (\<lambda>G. Inr (if length (dg_edges G) = 4 then 4 / 3 else 3 / 2)),
      nx_diameter = (\<lambda>G. Inr 2),
      nx_number_strongly_connected_components = (\<lambda>G. 1)\<rparr>"

definition demo_env :: "(string \<times> real) list \<Rightarrow> optimizer_env" where
  "demo_env config =
     \<lparr>nx = demo_nx, optimization_config = config, graph_analyze = (\<lambda>g. Inr ()),
      cleanup_ran_during_passes = False\<rparr>"

definition demo_graph :: "relationship list \<Rightarrow> graph" where
  "demo_graph rels =
     \<lparr>graph_id = 7, graph_name = ''demo'', gtype = ''KNOWLEDGE_GRAPH'',
      nodes = [plain_node ''A'' 0.8, plain_node ''B'' 0.8, plain_node ''C'' 0.8],
      relationships = rels, optimization_metrics = None\<rparr>"

definition cycle_metrics :: metrics where
  "cycle_metrics =
     \<lparr>node_count = 3, edge_count = 3, density = 1 / 2, average_clustering = 1 / 4,
      average_shortest_path = 3 / 2, diameter = 2, average_degree = 2,
      strongly_connected_components = 1\<rparr>"

definition cycle_after_passes :: optimizer_state where
  "cycle_after_passes =
     \<lparr>db_nodes = [''A'', ''B'', ''C''],
      db_relationships = [edge 1 ''A'' ''B'' 0.3, edge 2 ''B'' ''C'' 0.3, edge 3 ''C'' ''A'' 0.3],
      metrics_cache = [(7, cycle_metrics)]\<rparr>"

definition chord_metrics :: metrics where
  "chord_metrics =
     \<lparr>node_count = 3, edge_count = 4, density = 2 / 3, average_clustering = 1 / 3,
      average_shortest_path = 4 / 3, diameter = 2, average_degree = 8 / 3,
      strongly_connected_components = 1\<rparr>"

definition chord_after :: optimizer_state where
  "chord_after =
     \<lparr>db_nodes = [''A'', ''B'', ''C''],
      db_relationships = [edge 2 ''A'' ''B'' (1 / 4), edge 3 ''B'' ''C'' (4 / 15),
                          edge 4 ''C'' ''A'' (3 / 10)],
      metrics_cache = [(7, chord_metrics)]\<rparr>"

definition self_loop :: relationship where
  "self_loop = \<lparr>rel_id = 0, rtype = ''IS_RELATED'', source_id = ''s'', target_id = ''s'',
                 weight = 1, similarity_score = Some 0.9\<rparr>"

definition cyclic_prerequisite_graph :: graph where
  "cyclic_prerequisite_graph =
     \<lparr>graph_id = 0, graph_name = ''demo'', gtype = ''PREREQUISITE_GRAPH'',
      nodes = [plain_node ''A'' 0.8, plain_node ''B'' 0.8],
      relationships = [edge 1 ''A'' ''B'' 0.9, edge 2 ''B'' ''A'' 0.9],
      optimization_metrics = None\<rparr>"

text \<open>
  The batch of the redundancy scenario followed by a second relationship for one of its
  three endpoint pairs; and the state of an extractor that has already related the ids
  A and B when the nodes carried no level.
\<close>

definition repeated_direct_batch :: "relationship list" where
  "repeated_direct_batch = triangle_batch @ [edge 4 ''A'' ''C'' 0.9]"

definition repeated_first_leg_batch :: "relationship list" where
  "repeated_first_leg_batch = triangle_batch @ [edge 4 ''A'' ''B'' 0.2]"

definition repeated_second_leg_batch :: "relationship list" where
  "repeated_second_leg_batch = triangle_batch @ [edge 4 ''B'' ''C'' 0.2]"

definition fixed_similarity :: "real \<Rightarrow> similarity_calculator" where
  "fixed_similarity x va vb = Inr x"

definition unlevelled_node :: "string \<Rightarrow> node" where
  "unlevelled_node i =
     \<lparr>node_id = Some i, content = Some ''text'', vector = Some [1, 0], level = None,
      scope = None, ntype = None, references = None, quality_score = None\<rparr>"

definition earlier_relationship :: relationship where
  "earlier_relationship =
     \<lparr>rel_id = 0, rtype = ''IS_RELATED'', source_id = ''A'', target_id = ''B'',
      weight = 0.7 * 0.85 * 0.5, similarity_score = Some 0.85\<rparr>"

definition used_extractor :: extractor_state where
  "used_extractor =
     \<lparr>relationship_cache = [((''A'', ''B''), earlier_relationship)], uuid_counter = 1\<rparr>"

section \<open>Properties of the extractor's pure functions\<close>

lemma enforce_limit_cap:
  "(\<forall>n. count_of m n \<le> MAX_RELATIONSHIPS_PER_NODE) \<Longrightarrow>
   length (incident n (enforce_limit m rs)) + count_of m n \<le> MAX_RELATIONSHIPS_PER_NODE"
proof (induction rs arbitrary: m)
  case Nil
  then show ?case by (simp add: incident_def)
next
  case (Cons rel rest)
  let ?sc = "count_of m (source_id rel)"
  let ?tc = "count_of m (target_id rel)"
  show ?case
  proof (cases "?sc < MAX_RELATIONSHIPS_PER_NODE \<and> ?tc < MAX_RELATIONSHIPS_PER_NODE")
    case False
    then show ?thesis using Cons.IH [OF Cons.prems] by (auto simp: Let_def)
  next
    case True
    let ?m' = "m(source_id rel \<mapsto> ?sc + 1, target_id rel \<mapsto> ?tc + 1)"
    have bound: "\<forall>k. count_of ?m' k \<le> MAX_RELATIONSHIPS_PER_NODE"
      using True Cons.prems by (auto simp: count_of_def)
    have step: "enforce_limit m (rel # rest) = rel # enforce_limit ?m' rest"
      using True by (simp add: Let_def)
    have ih: "length (incident n (enforce_limit ?m' rest)) + count_of ?m' n
                \<le> MAX_RELATIONSHIPS_PER_NODE"
      by (rule Cons.IH [OF bound])
    show ?thesis
    proof (cases "source_id rel = n \<or> target_id rel = n")
      case False
      then have "count_of ?m' n = count_of m n" by (auto simp: count_of_def)
      with ih False show ?thesis unfolding step by (simp add: incident_def)
    next
      case hit: True
      then have "count_of ?m' n = count_of m n + 1" by (auto simp: count_of_def)
      with ih hit show ?thesis unfolding step by (auto simp: incident_def)
    qed
  qed
qed

lemma filter_relationships_cap:
  "length (incident n (filter_relationships rs)) \<le> MAX_RELATIONSHIPS_PER_NODE"
proof -
  have "\<forall>k. count_of Map.empty k \<le> MAX_RELATIONSHIPS_PER_NODE"
    by (simp add: count_of_def)
  from enforce_limit_cap [OF this, of n] show ?thesis
    by (auto simp: filter_relationships_def Let_def incident_def count_of_def)
qed

lemma extract_relationships_filtered:
  assumes "extract_relationships sim st ns bs = Inr (out, st')"
  shows "out = [] \<or> (\<exists>rels. out = filter_relationships rels)"
  using assms
  by (auto simp: extract_relationships_def Let_def split: if_splits sum.splits)

section \<open>Properties of the analysis graph and of redundancy detection\<close>

lemma dg_edges_fold_other:
  "k \<notin> edge_key ` set rs \<Longrightarrow>
   map_of (dg_edges (fold add_edge rs G)) k = map_of (dg_edges G) k"
  by (induction rs arbitrary: G) (auto simp: add_edge_def edge_key_def update_conv')

lemma dg_edges_add_edge:
  "map_of (dg_edges (add_edge x G)) (edge_key x) = Some (weight x, rel_id x)"
  by (simp add: add_edge_def edge_key_def update_conv')

lemma set_add_node: "set (add_node n ns) = insert n (set ns)"
  by (auto simp: add_node_def)

lemma dg_nodes_fold:
  "set (dg_nodes (fold add_edge rs G)) = set (dg_nodes G) \<union> source_id ` set rs \<union> target_id ` set rs"
  by (induction rs arbitrary: G) (auto simp: add_edge_def set_add_node)

lemma successors_of_edge:
  "map_of (dg_edges G) (u, v) = Some a \<Longrightarrow> v \<in> set (successors G u)"
  by (force simp: successors_def dest: map_of_SomeD)

lemma edge_of_successor:
  "v \<in> set (successors G u) \<Longrightarrow> \<exists>a. map_of (dg_edges G) (u, v) = Some a"
proof -
  assume "v \<in> set (successors G u)"
  then obtain a where "((u, v), a) \<in> set (dg_edges G)"
    by (auto simp: successors_def)
  then have "(u, v) \<in> fst ` set (dg_edges G)" by force
  then show ?thesis by (cases "map_of (dg_edges G) (u, v)") (auto simp: map_of_eq_None_iff)
qed

lemma direct_path:
  "c \<in> set (successors G a) \<Longrightarrow> c \<noteq> a \<Longrightarrow> [a, c] \<in> set (paths_from G c (Suc k) [a])"
  by auto

lemma two_step_path:
  "b \<in> set (successors G a) \<Longrightarrow> c \<in> set (successors G b) \<Longrightarrow> a \<noteq> b \<Longrightarrow> b \<noteq> c \<Longrightarrow> a \<noteq> c
   \<Longrightarrow> [a, b, c] \<in> set (paths_from G c (Suc (Suc k)) [a])"
  by auto

lemma path_strength_snoc_Cons:
  "path_strength G (u # rest) = Inr s \<Longrightarrow> map_of (dg_edges G) (last (u # rest), c) = Some a
   \<Longrightarrow> \<exists>s'. path_strength G (u # rest @ [c]) = Inr s'"
proof (induction rest arbitrary: u s)
  case Nil
  then show ?case by (cases a) simp
next
  case (Cons v rest)
  from Cons.prems(1) obtain w i p where e: "map_of (dg_edges G) (u, v) = Some (w, i)"
    and p: "path_strength G (v # rest) = Inr p"
    by (auto split: option.splits sum.splits)
  from Cons.prems(2) have "map_of (dg_edges G) (last (v # rest), c) = Some a" by simp
  from Cons.IH[OF p this] obtain s' where "path_strength G (v # rest @ [c]) = Inr s'" ..
  with e show ?case by simp
qed

lemma path_strength_snoc:
  "path_strength G vis = Inr s \<Longrightarrow> vis \<noteq> [] \<Longrightarrow> map_of (dg_edges G) (last vis, c) = Some a
   \<Longrightarrow> \<exists>s'. path_strength G (vis @ [c]) = Inr s'"
  using path_strength_snoc_Cons [of G "hd vis" "tl vis" s c a] by (cases vis) auto

lemma paths_from_strength:
  "p \<in> set (paths_from G t k vis) \<Longrightarrow> path_strength G vis = Inr s \<Longrightarrow> vis \<noteq> []
   \<Longrightarrow> \<exists>s'. path_strength G p = Inr s'"
proof (induction G t k vis arbitrary: s rule: paths_from.induct)
  case (1 G target visited)
  then show ?case by simp
next
  case (2 G target k visited)
  from "2.prems"(1) obtain child where ch: "child \<in> set (successors G (last visited))"
     "child \<notin> set visited"
     and p: "(child = target \<and> p = visited @ [child]) \<or>
             (child \<noteq> target \<and> p \<in> set (paths_from G target k (visited @ [child])))"
    by (auto split: if_splits)
  from edge_of_successor[OF ch(1)] obtain a where a: "map_of (dg_edges G) (last visited, child) = Some a" ..
  from path_strength_snoc[OF "2.prems"(2,3) a] obtain s' where s': "path_strength G (visited @ [child]) = Inr s'" ..
  from p show ?case
  proof
    assume "child = target \<and> p = visited @ [child]"
    with s' show ?thesis by auto
  next
    assume c: "child \<noteq> target \<and> p \<in> set (paths_from G target k (visited @ [child]))"
    show ?thesis
      by (rule "2.IH"[OF ch(1) ch(2) _ _ s']) (use c in auto)
  qed
qed

lemma collect_map_Inr: "collect (map Inr vs) = Inr vs"
  by (induction vs) auto

lemma all_Inr_map: "(\<forall>x\<in>set xs. \<exists>v. x = Inr v) \<Longrightarrow> \<exists>vs. xs = map Inr vs"
proof (induction xs)
  case Nil then show ?case by simp
next
  case (Cons x xs)
  then obtain v vs where "x = Inr v" "xs = map Inr vs" by auto
  then have "x # xs = map Inr (v # vs)" by simp
  then show ?case by (rule exI)
qed

lemma fold_max_ge: "(a::real) \<le> fold max xs a"
proof (induction xs arbitrary: a)
  case Nil then show ?case by simp
next
  case (Cons x xs)
  have "a \<le> max x a" by simp
  also have "max x a \<le> fold max xs (max x a)" by (rule Cons.IH)
  finally show ?case by simp
qed

lemma fold_max_mem: "(x::real) \<in> set xs \<Longrightarrow> x \<le> fold max xs a"
proof (induction xs arbitrary: a)
  case Nil then show ?case by simp
next
  case (Cons y ys)
  show ?case
  proof (cases "x = y")
    case True
    have "max y a \<le> fold max ys (max y a)" by (rule fold_max_ge)
    with True show ?thesis by simp
  next
    case False with Cons show ?thesis by simp
  qed
qed

lemma list_max_mem: "x \<in> set xs \<Longrightarrow> x \<le> list_max xs"
  by (cases xs) (auto simp: fold_max_mem intro: fold_max_ge)

lemma edges_of_iff:
  "(u, v) \<in> set (edges_of G) \<longleftrightarrow> u \<in> set (dg_nodes G) \<and> v \<in> set (successors G u)"
  by (auto simp: edges_of_def)

lemma strengths_total:
  assumes "all_simple_paths G u v = Inr paths"
  shows "\<exists>ss. map (path_strength G) paths = map Inr ss"
proof (rule all_Inr_map, clarsimp)
  fix p assume p: "p \<in> set paths"
  from assms p have "p \<in> set (paths_from G v (length (dg_nodes G) - 1) [u])"
    by (auto simp: all_simple_paths_def split: if_splits)
  from paths_from_strength[OF this, of 1] show "\<exists>s. path_strength G p = Inr s" by simp
qed

lemma edge_redundant_total:
  assumes "e \<in> set (edges_of G)"
  shows "\<exists>m. edge_redundant G e = Inr m"
proof -
  obtain u v where e: "e = (u, v)" by (cases e)
  with assms have u: "u \<in> set (dg_nodes G)" and v: "v \<in> set (successors G u)"
    by (auto simp: edges_of_iff)
  from u obtain paths where ps: "all_simple_paths G u v = Inr paths"
    by (cases "u = v") (simp_all add: all_simple_paths_def)
  from strengths_total[OF ps] obtain ss where ss: "map (path_strength G) paths = map Inr ss" ..
  from edge_of_successor[OF v] obtain a where a: "map_of (dg_edges G) (u, v) = Some a" ..
  show ?thesis
    by (cases a) (simp add: edge_redundant_def e ps ss collect_map_Inr a)
qed

lemma redundant_edges_total:
  "\<exists>marks. map (edge_redundant G) (edges_of G) = map Inr marks
      \<and> redundant_edges G = Inr (concat (map (\<lambda>m. case m of None \<Rightarrow> [] | Some i \<Rightarrow> [i]) marks))"
proof -
  have "\<forall>x\<in>set (map (edge_redundant G) (edges_of G)). \<exists>v. x = Inr v"
    using edge_redundant_total by auto
  from all_Inr_map[OF this] obtain marks where m: "map (edge_redundant G) (edges_of G) = map Inr marks" ..
  then show ?thesis by (auto simp: redundant_edges_def collect_map_Inr)
qed

lemma marked_edge_listed:
  assumes "e \<in> set (edges_of G)" "edge_redundant G e = Inr (Some i)"
  shows "\<exists>ids. redundant_edges G = Inr ids \<and> i \<in> set ids"
proof -
  from redundant_edges_total[of G] obtain marks where
    m: "map (edge_redundant G) (edges_of G) = map Inr marks"
    and r: "redundant_edges G = Inr (concat (map (\<lambda>m. case m of None \<Rightarrow> [] | Some i \<Rightarrow> [i]) marks))"
    by blast
  from assms have "Inr (Some i) \<in> set (map (edge_redundant G) (edges_of G))" by force
  with m have "Some i \<in> set marks" by auto
  then have "i \<in> set (concat (map (\<lambda>m. case m of None \<Rightarrow> [] | Some i \<Rightarrow> [i]) marks))"
    by force
  with r show ?thesis by blast
qed

lemma two_members_length: "x \<in> set xs \<Longrightarrow> y \<in> set xs \<Longrightarrow> x \<noteq> y \<Longrightarrow> 1 < length xs"
  by (cases xs; cases "tl xs") auto

lemma stronger_path_marks_edge:
  assumes ac: "map_of (dg_edges G) (a, c) = Some (w, i)"
    and ab: "map_of (dg_edges G) (a, b) = Some (w1, i1)"
    and bc: "map_of (dg_edges G) (b, c) = Some (w2, i2)"
    and d: "a \<noteq> b" "b \<noteq> c" "a \<noteq> c"
    and n: "a \<in> set (dg_nodes G)" "3 \<le> length (dg_nodes G)"
    and s: "w < w1 * w2"
  shows "edge_redundant G (a, c) = Inr (Some i)"
proof -
  obtain k where k: "length (dg_nodes G) - 1 = Suc (Suc k)"
    using n(2) by (cases "length (dg_nodes G)"; cases "length (dg_nodes G) - 1"; cases "length (dg_nodes G) - 2") auto
  define paths where "paths = paths_from G c (Suc (Suc k)) [a]"
  have ps: "all_simple_paths G a c = Inr paths"
    using n(1) d k by (simp add: all_simple_paths_def paths_def)
  have sa: "c \<in> set (successors G a)" "b \<in> set (successors G a)" "c \<in> set (successors G b)"
    using ac ab bc by (auto intro: successors_of_edge)
  have p1: "[a, c] \<in> set paths" unfolding paths_def using direct_path[OF sa(1)] d by blast
  have p2: "[a, b, c] \<in> set paths" unfolding paths_def using two_step_path[OF sa(2) sa(3)] d by blast
  have len: "1 < length paths" using two_members_length[OF p1 p2] by simp
  from strengths_total[OF ps] obtain ss where ss: "map (path_strength G) paths = map Inr ss" ..
  have "path_strength G [a, b, c] = Inr (w1 * w2)" using ab bc by simp
  moreover have "path_strength G [a, b, c] \<in> set (map (path_strength G) paths)" using p2 by force
  ultimately have "w1 * w2 \<in> set ss" using ss by auto
  then have "w1 * w2 \<le> list_max ss" by (rule list_max_mem)
  with s have "w < list_max ss" by simp
  then show ?thesis
    using len by (simp add: edge_redundant_def ps ss collect_map_Inr ac)
qed

lemma to_digraph_last_edge:
  assumes "batch = pre @ r # post" and "edge_key r \<notin> edge_key ` set post"
  shows "map_of (dg_edges (to_digraph batch)) (edge_key r) = Some (weight r, rel_id r)"
proof -
  have "to_digraph batch = fold add_edge post (add_edge r (fold add_edge pre empty_digraph))"
    by (simp add: to_digraph_def assms(1))
  then show ?thesis
    using dg_edges_fold_other [OF assms(2)] by (simp add: dg_edges_add_edge)
qed

lemma to_digraph_nodes:
  "r \<in> set rs \<Longrightarrow> source_id r \<in> set (dg_nodes (to_digraph rs)) \<and> target_id r \<in> set (dg_nodes (to_digraph rs))"
  unfolding to_digraph_def by (simp add: dg_nodes_fold)

lemma three_nodes:
  assumes "a \<in> set ns" "b \<in> set ns" "c \<in> set ns" "a \<noteq> b" "b \<noteq> c" "a \<noteq> c"
  shows "3 \<le> length ns"
proof -
  have "card {a, b, c} \<le> card (set ns)" using assms by (intro card_mono) auto
  also have "\<dots> \<le> length ns" by (rule card_length)
  finally show ?thesis using assms by simp
qed

section \<open>Properties of the optimizer\<close>

lemma resolve_uuid: "resolve_global ''uuid'' = Inl (NameError ''uuid'')"
  by (simp add: resolve_global_def graph_optimizer_globals_def)

lemma add_direct_connections_unchanged:
  "add_direct_connections G st cs = Inr st' \<Longrightarrow> st' = st"
  by (induction cs) (auto simp: resolve_uuid split: sum.splits option.splits)

lemma add_direct_connections_fails:
  "\<forall>c\<in>set cs. \<exists>r. candidate_weight G c = Inr r \<Longrightarrow>
   \<exists>c\<in>set cs. \<exists>w. candidate_weight G c = Inr (Some w) \<Longrightarrow>
   add_direct_connections G st cs = Inl (NameError ''uuid'')"
proof (induction cs)
  case Nil then show ?case by simp
next
  case (Cons c cs)
  from Cons.prems(1) obtain r where r: "candidate_weight G c = Inr r" by auto
  show ?case
  proof (cases r)
    case None
    with r Cons show ?thesis by auto
  next
    case (Some w)
    with r show ?thesis by (simp add: resolve_uuid)
  qed
qed

lemma edge_of_predecessor:
  "p \<in> set (predecessors G n) \<Longrightarrow> \<exists>a. map_of (dg_edges G) (p, n) = Some a"
proof -
  assume "p \<in> set (predecessors G n)"
  then obtain a where "((p, n), a) \<in> set (dg_edges G)"
    by (auto simp: predecessors_def)
  then have "(p, n) \<in> fst ` set (dg_edges G)" by force
  then show ?thesis by (cases "map_of (dg_edges G) (p, n)") (auto simp: map_of_eq_None_iff)
qed

lemma predecessors_of_edge:
  "map_of (dg_edges G) (u, v) = Some a \<Longrightarrow> u \<in> set (predecessors G v)"
  by (force simp: predecessors_def dest: map_of_SomeD)

lemma candidate_weight_total:
  assumes "c \<in> set (rebalance_candidates G ns)"
  shows "\<exists>r. candidate_weight G c = Inr r"
proof -
  from assms obtain p n s where c: "c = (p, n, s)" and p: "p \<in> set (predecessors G n)"
    and s: "s \<in> set (successors G n)"
    by (auto simp: rebalance_candidates_def)
  from edge_of_predecessor[OF p] obtain a1 where a1: "map_of (dg_edges G) (p, n) = Some a1" ..
  from edge_of_successor[OF s] obtain a2 where a2: "map_of (dg_edges G) (n, s) = Some a2" ..
  show ?thesis by (cases a1; cases a2) (simp add: candidate_weight_def c a1 a2)
qed

lemma rebalance_structure_unchanged:
  "rebalance_structure env st g = Inr st' \<Longrightarrow> st' = st"
  by (auto simp: rebalance_structure_def Let_def split: sum.splits
           dest: add_direct_connections_unchanged)

lemma candidate_listed:
  assumes "(n, coeff) \<in> set (nx_clustering (nx env) G)"
    and "coeff < dict_get (optimization_config env) ''min_clustering'' 0.3"
    and "p \<in> set (predecessors G n)" and "s \<in> set (successors G n)"
  shows "(p, n, s) \<in> set (rebalance_candidates G (rebalance_nodes_of env G))"
  using assms by (force simp: rebalance_candidates_def rebalance_nodes_of_def)

lemma remove_redundant_cache:
  "remove_redundant_relationships st b = Inr st' \<Longrightarrow> metrics_cache st' = metrics_cache st"
  by (auto simp: remove_redundant_relationships_def delete_relationships_def
           split: sum.splits if_splits)

lemma optimize_weights_cache:
  "optimize_weights lib st b = Inr st' \<Longrightarrow> metrics_cache st' = metrics_cache st"
  by (auto simp: optimize_weights_def Let_def split: sum.splits if_splits)

lemma optimize_batches_cache:
  "optimize_batches lib st bs = Inr st' \<Longrightarrow> metrics_cache st' = metrics_cache st"
proof (induction bs arbitrary: st)
  case Nil then show ?case by simp
next
  case (Cons b bs)
  from Cons.prems obtain st1 st2 where 1: "remove_redundant_relationships st b = Inr st1"
    and 2: "optimize_weights lib st1 b = Inr st2" and 3: "optimize_batches lib st2 bs = Inr st'"
    by (auto split: sum.splits)
  from Cons.IH[OF 3] remove_redundant_cache[OF 1] optimize_weights_cache[OF 2]
  show ?case by simp
qed

lemma calculate_metrics_cached:
  "calculate_metrics env st g = Inr (m, st1) \<Longrightarrow>
   map_of (metrics_cache st1) (graph_id g) = Some m"
  by (auto simp: calculate_metrics_def update_conv' split: option.splits sum.splits)

lemma calculate_metrics_hit:
  "map_of (metrics_cache st) (graph_id g) = Some m \<Longrightarrow> calculate_metrics env st g = Inr (m, st)"
  by (simp add: calculate_metrics_def)

lemma optimize_final_is_initial:
  assumes "\<not> cleanup_ran_during_passes env" and "optimize env st g = Inr (g', st')"
  shows "\<exists>m. optimization_metrics g' = Some (m, m)"
proof -
  from assms(2) obtain m0 st2 st3 m1 st4 where
    p: "optimize_passes env st g = Inr (m0, st2)"
    and r: "rebalance_structure env st2 g = Inr st3"
    and f: "calculate_metrics env (evict (cleanup_ran_during_passes env) g st3) g = Inr (m1, st4)"
    and g': "g' = g\<lparr>optimization_metrics := Some (m0, m1)\<rparr>"
    by (auto simp: optimize_def split: sum.splits prod.splits)
  from p obtain st1 where c: "calculate_metrics env st g = Inr (m0, st1)"
    and b: "optimize_batches (nx env) st1 (slices OPTIMIZATION_BATCH_SIZE (get_relationships st1 g)) = Inr st2"
    by (auto simp: optimize_passes_def split: sum.splits prod.splits)
  have "map_of (metrics_cache st2) (graph_id g) = Some m0"
    using calculate_metrics_cached[OF c] optimize_batches_cache[OF b] by simp
  moreover have "st3 = st2" using r by (rule rebalance_structure_unchanged)
  ultimately have "calculate_metrics env (evict (cleanup_ran_during_passes env) g st3) g = Inr (m0, st3)"
    using assms(1) by (simp add: evict_def calculate_metrics_hit)
  with f have "m1 = m0" by simp
  with g' show ?thesis by simp
qed

lemma cycle_passes:
  "optimize_passes (demo_env []) (store_of cycle_batch) (demo_graph cycle_batch)
     = Inr (cycle_metrics, cycle_after_passes)"
  by code_simp

lemma cycle_quiet:
  "rebalance_structure (demo_env [(''min_clustering'', 0.2)]) (store_of cycle_batch)
       (demo_graph cycle_batch) = Inr (store_of cycle_batch)"
  by code_simp

section \<open>Properties of the complexity check\<close>









section \<open>Claims\<close>

text \<open>
  C7. For every input list of relationships, no node id is the source or the target of
  more than 20 of the relationships that \<open>filter_relationships\<close> returns; the same holds
  for every list that \<open>extract_relationships\<close> returns, for any similarity collaborator,
  cache, node list and batch size.
\<close>

theorem fan_out_cap:
  "length (incident n (filter_relationships rs)) \<le> 20
   \<and> (extract_relationships sim st ns bs = Inr (out, st')
        \<longrightarrow> length (incident n out) \<le> 20)"
proof
  show "length (incident n (filter_relationships rs)) \<le> 20"
    using filter_relationships_cap [of n rs] by (simp add: MAX_RELATIONSHIPS_PER_NODE_def)
next
  show "extract_relationships sim st ns bs = Inr (out, st') \<longrightarrow> length (incident n out) \<le> 20"
  proof
    assume "extract_relationships sim st ns bs = Inr (out, st')"
    then have "out = [] \<or> (\<exists>rels. out = filter_relationships rels)"
      by (rule extract_relationships_filtered)
    then show "length (incident n out) \<le> 20"
      using filter_relationships_cap [of n]
      by (auto simp: MAX_RELATIONSHIPS_PER_NODE_def incident_def)
  qed
qed

theorem fan_out_cap_witness:
  "extract_relationships (\<lambda>a b. Inr 0.85) fresh_extractor
       [levelled_node ''A'' 1, levelled_node ''B'' 2] None
     = Inr ([\<lparr>rel_id = 0, rtype = ''IS_PREREQUISITE'', source_id = ''A'', target_id = ''B'',
              weight = 0.425, similarity_score = Some 0.85\<rparr>],
            \<lparr>relationship_cache =
               [((''A'', ''B''),
                 \<lparr>rel_id = 0, rtype = ''IS_PREREQUISITE'', source_id = ''A'', target_id = ''B'',
                  weight = 0.425, similarity_score = Some 0.85\<rparr>)],
             uuid_counter = 1\<rparr>)
   \<and> length (incident ''A''
        [\<lparr>rel_id = 0, rtype = ''IS_PREREQUISITE'', source_id = ''A'', target_id = ''B'',
          weight = 0.425, similarity_score = Some 0.85\<rparr>]) \<le> 20"
proof -
  have run: "extract_relationships (\<lambda>a b. Inr 0.85) fresh_extractor
       [levelled_node ''A'' 1, levelled_node ''B'' 2] None
     = Inr ([\<lparr>rel_id = 0, rtype = ''IS_PREREQUISITE'', source_id = ''A'', target_id = ''B'',
              weight = 0.425, similarity_score = Some 0.85\<rparr>],
            \<lparr>relationship_cache =
               [((''A'', ''B''),
                 \<lparr>rel_id = 0, rtype = ''IS_PREREQUISITE'', source_id = ''A'', target_id = ''B'',
                  weight = 0.425, similarity_score = Some 0.85\<rparr>)],
             uuid_counter = 1\<rparr>)"
    by (simp add: extract_relationships_def BATCH_SIZE_def slices_def levelled_node_def
        fresh_extractor_def determine_relationship_type_def opt_get_def
        calculate_relationship_weight_def dict_get_def RELATIONSHIP_WEIGHTS_def
        Relationship_post_init_def RELATIONSHIP_TYPES_def SIMILARITY_THRESHOLD_def
        filter_relationships_def Let_def MAX_RELATIONSHIPS_PER_NODE_def count_of_def)
  from fan_out_cap [THEN conjunct2, rule_format, OF run, of "''A''"] run
  show ?thesis by simp
qed

text \<open>
  C8. For each of the five relationship types, every similarity score and every pair of
  source and target quality scores, \<open>calculate_relationship_weight\<close> returns
  \<open>clamp(base_weight(type) * similarity * (source_quality + target_quality) / 2, 0, 1)\<close>
  with the base weights 1.0 (IS\_PREREQUISITE), 0.9 (CONTAINS), 0.8 (EXTENDS),
  0.7 (IS\_RELATED) and 0.6 (REFERENCES); the returned weight always lies in [0,1].
\<close>

theorem relationship_weight_formula:
  "calculate_relationship_weight ''IS_PREREQUISITE'' s
       (Some [(''source_quality'', a), (''target_quality'', b)])
     = max 0 (min 1 (1.0 * s * ((a + b) / 2)))
   \<and> calculate_relationship_weight ''CONTAINS'' s
       (Some [(''source_quality'', a), (''target_quality'', b)])
     = max 0 (min 1 (0.9 * s * ((a + b) / 2)))
   \<and> calculate_relationship_weight ''EXTENDS'' s
       (Some [(''source_quality'', a), (''target_quality'', b)])
     = max 0 (min 1 (0.8 * s * ((a + b) / 2)))
   \<and> calculate_relationship_weight ''IS_RELATED'' s
       (Some [(''source_quality'', a), (''target_quality'', b)])
     = max 0 (min 1 (0.7 * s * ((a + b) / 2)))
   \<and> calculate_relationship_weight ''REFERENCES'' s
       (Some [(''source_quality'', a), (''target_quality'', b)])
     = max 0 (min 1 (0.6 * s * ((a + b) / 2)))
   \<and> 0 \<le> calculate_relationship_weight t s q
   \<and> calculate_relationship_weight t s q \<le> 1"
  by (simp add: calculate_relationship_weight_def dict_get_def
        RELATIONSHIP_WEIGHTS_def Let_def)

text \<open>
  C10 (amended). The analysis graph keeps, for each ordered pair of endpoints, the
  relationship that the batch lists last. If in the batch that
  \<open>remove_redundant_relationships\<close> processes the last relationship for (A, C) has
  weight 0.3 and the last relationships for (A, B) and (B, C) have weights that multiply
  to 0.6 (A, B, C distinct), then the id of that direct edge is among the ids marked
  redundant, and no persisted relationship carries that id after the call.
\<close>

theorem redundant_direct_edge_removed:
  assumes ac: "batch = pre1 @ rAC # post1" "(A, C) \<notin> edge_key ` set post1"
    and ab: "batch = pre2 @ rAB # post2" "(A, B) \<notin> edge_key ` set post2"
    and bc: "batch = pre3 @ rBC # post3" "(B, C) \<notin> edge_key ` set post3"
    and keys: "edge_key rAC = (A, C)" "edge_key rAB = (A, B)" "edge_key rBC = (B, C)"
    and diff: "A \<noteq> B" "B \<noteq> C" "A \<noteq> C"
    and w: "weight rAC = 0.3" "weight rAB * weight rBC = 0.6"
  shows "\<exists>ids st'. redundant_edges (to_digraph batch) = Inr ids \<and> rel_id rAC \<in> set ids
           \<and> remove_redundant_relationships st batch = Inr st'
           \<and> rel_id rAC \<notin> rel_id ` set (db_relationships st')"
proof -
  let ?G = "to_digraph batch"
  have mem: "rAC \<in> set batch" "rAB \<in> set batch" "rBC \<in> set batch"
    by (subst ac(1), simp) (subst ab(1), simp, subst bc(1), simp)
  have eac: "map_of (dg_edges ?G) (A, C) = Some (weight rAC, rel_id rAC)"
    using to_digraph_last_edge [OF ac(1)] ac(2) keys(1) by simp
  have eab: "map_of (dg_edges ?G) (A, B) = Some (weight rAB, rel_id rAB)"
    using to_digraph_last_edge [OF ab(1)] ab(2) keys(2) by simp
  have ebc: "map_of (dg_edges ?G) (B, C) = Some (weight rBC, rel_id rBC)"
    using to_digraph_last_edge [OF bc(1)] bc(2) keys(3) by simp
  have nA: "A \<in> set (dg_nodes ?G)" and nC: "C \<in> set (dg_nodes ?G)"
    using to_digraph_nodes[OF mem(1)] keys(1) by (auto simp: edge_key_def)
  have nB: "B \<in> set (dg_nodes ?G)"
    using to_digraph_nodes[OF mem(3)] keys(3) by (auto simp: edge_key_def)
  have three: "3 \<le> length (dg_nodes ?G)" by (rule three_nodes[OF nA nB nC diff])
  have "weight rAC < weight rAB * weight rBC" using w by simp
  from stronger_path_marks_edge[OF eac eab ebc diff nA three this]
  have marked: "edge_redundant ?G (A, C) = Inr (Some (rel_id rAC))" .
  have "(A, C) \<in> set (edges_of ?G)"
    using nA successors_of_edge[OF eac] by (simp add: edges_of_iff)
  from marked_edge_listed[OF this marked] obtain ids
    where ids: "redundant_edges ?G = Inr ids" "rel_id rAC \<in> set ids" by blast
  then have ne: "ids \<noteq> []" by auto
  have run: "remove_redundant_relationships st batch = Inr (delete_relationships ids st)"
    using ids(1) ne by (simp add: remove_redundant_relationships_def)
  have gone: "rel_id rAC \<notin> rel_id ` set (db_relationships (delete_relationships ids st))"
    using ids(2) by (auto simp: delete_relationships_def)
  from ids run gone show ?thesis by blast
qed

theorem redundant_direct_edge_removed_witness:
  "\<exists>ids st'. redundant_edges (to_digraph triangle_batch) = Inr ids \<and> 1 \<in> set ids
           \<and> remove_redundant_relationships triangle_store triangle_batch = Inr st'
           \<and> 1 \<notin> rel_id ` set (db_relationships st')"
  using redundant_direct_edge_removed [of triangle_batch "[]" "edge 1 ''A'' ''C'' 0.3"
      "[edge 2 ''A'' ''B'' 0.75, edge 3 ''B'' ''C'' 0.8]" "''A''" "''C''"
      "[edge 1 ''A'' ''C'' 0.3]" "edge 2 ''A'' ''B'' 0.75" "[edge 3 ''B'' ''C'' 0.8]" "''B''"
      "[edge 1 ''A'' ''C'' 0.3, edge 2 ''A'' ''B'' 0.75]" "edge 3 ''B'' ''C'' 0.8" "[]"
      triangle_store]
  by (simp add: triangle_batch_def edge_def edge_key_def)

text \<open>
  C10 as stated fails when the batch repeats an endpoint pair: each of the three batches
  holds the direct edge A\<rightarrow>C of weight 0.3 and the edges A\<rightarrow>B (0.75) and B\<rightarrow>C (0.8),
  followed by a stronger A\<rightarrow>C, a weaker A\<rightarrow>B or a weaker B\<rightarrow>C; nothing is deleted and the
  direct edge of weight 0.3 stays in the store.
\<close>

theorem repeated_pair_keeps_direct_edge:
  "remove_redundant_relationships (store_of repeated_direct_batch) repeated_direct_batch
     = Inr (store_of repeated_direct_batch)
   \<and> remove_redundant_relationships (store_of repeated_first_leg_batch) repeated_first_leg_batch
     = Inr (store_of repeated_first_leg_batch)
   \<and> remove_redundant_relationships (store_of repeated_second_leg_batch) repeated_second_leg_batch
     = Inr (store_of repeated_second_leg_batch)
   \<and> edge 1 ''A'' ''C'' 0.3 \<in> set (db_relationships (store_of repeated_direct_batch))
   \<and> edge 1 ''A'' ''C'' 0.3 \<in> set (db_relationships (store_of repeated_first_leg_batch))
   \<and> edge 1 ''A'' ''C'' 0.3 \<in> set (db_relationships (store_of repeated_second_leg_batch))"
  by code_simp

text \<open>
  C9 (amended). Given exactly the two nodes A (level 1) and B (level 2) with similarity
  0.85, A listed before B, the default batch size and no cached relationship for the
  pair (A, B), \<open>extract_relationships\<close> returns exactly one relationship; its type is
  IS\_PREREQUISITE (not IS\_RELATED), its source is A and its target is B.
\<close>

theorem prerequisite_scenario:
  assumes "node_id A = Some a" and "node_id B = Some b"
    and "vector A = Some va" and "vector B = Some vb"
    and "level A = Some 1" and "level B = Some 2"
    and "sim va vb = Inr 0.85"
    and "map_of (relationship_cache st) (a, b) = None"
  shows "\<exists>r st'. extract_relationships sim st [A, B] (Some BATCH_SIZE) = Inr ([r], st')
           \<and> rtype r = ''IS_PREREQUISITE'' \<and> rtype r \<noteq> ''IS_RELATED''
           \<and> source_id r = a \<and> target_id r = b"
  using assms
  by (simp add: extract_relationships_def BATCH_SIZE_def slices_def
        determine_relationship_type_def opt_get_def calculate_relationship_weight_def
        dict_get_def RELATIONSHIP_WEIGHTS_def Relationship_post_init_def
        RELATIONSHIP_TYPES_def SIMILARITY_THRESHOLD_def filter_relationships_def Let_def
        MAX_RELATIONSHIPS_PER_NODE_def count_of_def)

theorem prerequisite_scenario_witness:
  "\<exists>r st'. extract_relationships (\<lambda>a b. Inr 0.85) fresh_extractor
               [levelled_node ''A'' 1, levelled_node ''B'' 2] (Some BATCH_SIZE) = Inr ([r], st')
           \<and> rtype r = ''IS_PREREQUISITE'' \<and> rtype r \<noteq> ''IS_RELATED''
           \<and> source_id r = ''A'' \<and> target_id r = ''B''"
  by (rule prerequisite_scenario [where va = "[1, 0]" and vb = "[1, 0]"])
     (simp_all add: levelled_node_def fresh_extractor_def)

text \<open>
  C9 as stated fails in two ways. The extractor pairs a node only with the nodes listed
  after it, as source: given B before A it returns one IS\_RELATED edge B\<rightarrow>A. And a pair
  found in the relationship cache is answered from the cache: an extractor that related
  A and B when they carried no level returns that IS\_RELATED edge again for the
  levelled nodes.
\<close>

theorem prerequisite_scenario_other_inputs:
  "extracted_edges
     (extract_relationships (fixed_similarity 0.85) fresh_extractor
        [levelled_node ''B'' 2, levelled_node ''A'' 1] (Some BATCH_SIZE))
     = Inr [(''IS_RELATED'', ''B'', ''A'', 0.7 * 0.85 * 0.5)]
   \<and> extract_relationships (fixed_similarity 0.85) fresh_extractor
        [unlevelled_node ''A'', unlevelled_node ''B''] (Some BATCH_SIZE)
     = Inr ([earlier_relationship], used_extractor)
   \<and> extracted_edges
       (extract_relationships (fixed_similarity 0.85) used_extractor
          [levelled_node ''A'' 1, levelled_node ''B'' 2] (Some BATCH_SIZE))
     = Inr [(''IS_RELATED'', ''A'', ''B'', 0.7 * 0.85 * 0.5)]"
  by (simp add: extract_relationships_def extracted_edges_def BATCH_SIZE_def slices_def
        levelled_node_def unlevelled_node_def fixed_similarity_def fresh_extractor_def used_extractor_def
        earlier_relationship_def determine_relationship_type_def opt_get_def
        calculate_relationship_weight_def dict_get_def RELATIONSHIP_WEIGHTS_def
        Relationship_post_init_def RELATIONSHIP_TYPES_def SIMILARITY_THRESHOLD_def
        filter_relationships_def Let_def MAX_RELATIONSHIPS_PER_NODE_def count_of_def
        edge_view_def)

text \<open>
  C1 (evaluation of the code at the scenario's input). Three nodes with pairwise
  similarity 0.95, quality 0.8 each and no level, scope, type or references: the
  extractor returns one edge per pair, but of type CONTAINS and of weight
  0.9 * 0.95 * 0.8, not IS\_RELATED of weight 0.7 * 0.95 * 0.8.
\<close>

theorem near_identical_nodes_extracted:
  "extracted_edges
     (extract_relationships (\<lambda>a b. Inr 0.95) fresh_extractor
        [plain_node ''n1'' 0.8, plain_node ''n2'' 0.8, plain_node ''n3'' 0.8]
        (Some BATCH_SIZE))
   = Inr [(''CONTAINS'', ''n1'', ''n2'', 0.9 * 0.95 * ((0.8 + 0.8) / 2)),
          (''CONTAINS'', ''n1'', ''n3'', 0.9 * 0.95 * ((0.8 + 0.8) / 2)),
          (''CONTAINS'', ''n2'', ''n3'', 0.9 * 0.95 * ((0.8 + 0.8) / 2))]"
  by (simp add: extract_relationships_def extracted_edges_def BATCH_SIZE_def slices_def
        plain_node_def fresh_extractor_def determine_relationship_type_def opt_get_def
        calculate_relationship_weight_def dict_get_def RELATIONSHIP_WEIGHTS_def
        Relationship_post_init_def RELATIONSHIP_TYPES_def SIMILARITY_THRESHOLD_def
        filter_relationships_def Let_def MAX_RELATIONSHIPS_PER_NODE_def count_of_def
        edge_view_def)

text \<open>
  C6. Whenever \<open>rebalance_structure\<close> finds a node whose clustering coefficient is below
  the threshold, with a predecessor \<open>p\<close> and a successor \<open>s\<close> that have no direct edge
  and min(weight of p\<rightarrow>n, weight of n\<rightarrow>s) above 0.1, the edge-creation branch evaluates the
  name \<open>uuid\<close>, which \<open>graph_optimizer.py\<close> never binds: the call raises
  \<open>NameError\<close> instead of inserting the edge, and so does \<open>optimize\<close> when its passes hand
  such a state to the rebalancing. No call of \<open>rebalance_structure\<close> that returns has
  changed the store.
\<close>

theorem rebalance_insertion_raises_name_error:
  assumes G: "G = to_digraph (get_relationships st g)"
    and analyze: "graph_analyze env g = Inr ()"
    and node: "(n, coeff) \<in> set (nx_clustering (nx env) G)"
    and low: "coeff < dict_get (optimization_config env) ''min_clustering'' 0.3"
    and pred: "map_of (dg_edges G) (p, n) = Some (w1, i1)"
    and succ: "map_of (dg_edges G) (n, s) = Some (w2, i2)"
    and missing: "\<not> has_edge G p s"
    and heavy: "min w1 w2 > 0.1"
  shows "rebalance_structure env st g = Inl (NameError ''uuid'')
         \<and> (optimize_passes env st0 g = Inr (m, st)
              \<longrightarrow> optimize env st0 g = Inl (NameError ''uuid''))
         \<and> (rebalance_structure env' st1 g1 = Inr st1' \<longrightarrow> st1' = st1)"
proof -
  let ?cs = "rebalance_candidates G (rebalance_nodes_of env G)"
  have mem: "(p, n, s) \<in> set ?cs"
    by (rule candidate_listed[OF node low predecessors_of_edge[OF pred] successors_of_edge[OF succ]])
  have cw: "candidate_weight G (p, n, s) = Inr (Some (min w1 w2))"
    using pred succ missing heavy by (simp add: candidate_weight_def MIN_RELATIONSHIP_WEIGHT_def)
  have "\<forall>c\<in>set ?cs. \<exists>r. candidate_weight G c = Inr r"
    using candidate_weight_total by blast
  moreover have "\<exists>c\<in>set ?cs. \<exists>w. candidate_weight G c = Inr (Some w)"
    using mem cw by blast
  ultimately have "add_direct_connections G st ?cs = Inl (NameError ''uuid'')"
    by (rule add_direct_connections_fails)
  then have 1: "rebalance_structure env st g = Inl (NameError ''uuid'')"
    using analyze G by (simp add: rebalance_structure_def)
  then have 2: "optimize_passes env st0 g = Inr (m, st)
              \<longrightarrow> optimize env st0 g = Inl (NameError ''uuid'')"
    by (simp add: optimize_def)
  have 3: "rebalance_structure env' st1 g1 = Inr st1' \<longrightarrow> st1' = st1"
    using rebalance_structure_unchanged by blast
  from 1 2 3 show ?thesis by blast
qed

theorem rebalance_insertion_raises_name_error_witness:
  "rebalance_structure (demo_env []) cycle_after_passes (demo_graph cycle_batch)
     = Inl (NameError ''uuid'')
   \<and> optimize_passes (demo_env []) (store_of cycle_batch) (demo_graph cycle_batch)
       = Inr (cycle_metrics, cycle_after_passes)
   \<and> optimize (demo_env []) (store_of cycle_batch) (demo_graph cycle_batch)
       = Inl (NameError ''uuid'')
   \<and> rebalance_structure (demo_env [(''min_clustering'', 0.2)]) (store_of cycle_batch)
       (demo_graph cycle_batch) = Inr (store_of cycle_batch)"
proof -
  let ?G = "to_digraph (get_relationships cycle_after_passes (demo_graph cycle_batch))"
  have G: "?G = \<lparr>dg_nodes = [''A'', ''B'', ''C''],
                 dg_edges = [((''A'', ''B''), (0.3, 1)), ((''B'', ''C''), (0.3, 2)),
                             ((''C'', ''A''), (0.3, 3))]\<rparr>"
    by code_simp
  have h1: "graph_analyze (demo_env []) (demo_graph cycle_batch) = Inr ()"
    by (simp add: demo_env_def)
  have h2: "(''A'', 1 / 4) \<in> set (nx_clustering (nx (demo_env [])) ?G)"
    unfolding G by (simp add: demo_env_def demo_nx_def)
  have h3: "(1 / 4 :: real) < dict_get (optimization_config (demo_env [])) ''min_clustering'' 0.3"
    by (simp add: demo_env_def dict_get_def)
  have h4: "map_of (dg_edges ?G) (''C'', ''A'') = Some (0.3, 3)"
    unfolding G by simp
  have h5: "map_of (dg_edges ?G) (''A'', ''B'') = Some (0.3, 1)"
    unfolding G by simp
  have h6: "\<not> has_edge ?G ''C'' ''B''"
    unfolding G by (simp add: has_edge_def)
  have h7: "min (0.3 :: real) 0.3 > 0.1" by simp
  note inst = rebalance_insertion_raises_name_error [OF refl h1 h2 h3 h4 h5 h6 h7,
      of "store_of cycle_batch" cycle_metrics "demo_env [(''min_clustering'', 0.2)]"
         "store_of cycle_batch" "demo_graph cycle_batch" "store_of cycle_batch"]
  from inst cycle_passes cycle_quiet show ?thesis by simp
qed

text \<open>
  C5 (evaluation of the code at a failing input). The store holds the cycle
  A\<rightarrow>B\<rightarrow>C\<rightarrow>A and the chord A\<rightarrow>C of weight 0.3, which the redundancy pass deletes. The
  \<open>final\<close> metrics that \<open>optimize\<close> records equal the \<open>initial\<close> ones (4 edges), served
  from the metrics cache; the metrics computed from the store after the passes have
  3 edges.
\<close>

theorem final_metrics_are_cached_initial:
  "optimize (demo_env [(''min_clustering'', 0.2)]) (store_of chord_batch) (demo_graph chord_batch)
     = Inr ((demo_graph chord_batch)\<lparr>optimization_metrics := Some (chord_metrics, chord_metrics)\<rparr>,
            chord_after)
   \<and> edge_count chord_metrics = 4
   \<and> compute_metrics demo_nx (to_digraph (get_relationships chord_after (demo_graph chord_batch)))
       = Inr cycle_metrics
   \<and> edge_count cycle_metrics = 3"
  by code_simp


text \<open>
  C4 (evaluation of the code at a failing input). Constructing a relationship whose
  source and target are the same id succeeds.
\<close>

theorem self_loop_is_constructed:
  "Relationship_post_init self_loop = Inr self_loop \<and> source_id self_loop = target_id self_loop"
  by (simp add: Relationship_post_init_def self_loop_def RELATIONSHIP_TYPES_def)

text \<open>
  C3 (evaluation of the code at a failing input). Constructing a graph of type
  PREREQUISITE\_GRAPH whose relationships A\<rightarrow>B and B\<rightarrow>A form a cycle succeeds, with
  both relationships kept; the schema's own \<open>_has_cycle\<close> finds the cycle.
\<close>

theorem cyclic_prerequisite_graph_is_constructed:
  "Graph_post_init cyclic_prerequisite_graph = Inr cyclic_prerequisite_graph
   \<and> gtype cyclic_prerequisite_graph = ''PREREQUISITE_GRAPH''
   \<and> has_cycle (map edge_key (relationships cyclic_prerequisite_graph)) = Some True"
  by (simp add: Graph_post_init_def cyclic_prerequisite_graph_def GRAPH_TYPES_def
        has_cycle_def adjacency_def dict_get_def edge_def edge_key_def)

end
